theory Spec2Isabelle
  imports Complex_Main
begin

section \<open>Conventions of the embedding\<close>

text \<open>
  The development embeds \<^verbatim>\<open>src/src/distribution_spatial.cpp\<close> and the
  declarations of \<^verbatim>\<open>src/include/openmc/particle.h\<close>.

  \<^item> A C++ \<^verbatim>\<open>double\<close> is a \<^typ>\<open>real\<close> and its arithmetic is exact, except
    where a section says otherwise: the box sampler is also given in an arithmetic with
    the infinities and NaN of \<^verbatim>\<open>double\<close>, to show where overflow decides.
  \<^item> The process-wide pseudorandom stream of \<^verbatim>\<open>prn()\<close> is an explicit state of an
    arbitrary type \<open>'g\<close>; the generator itself (\<^verbatim>\<open>random_lcg.h\<close>) is a parameter
    \<open>prn :: 'g \<Rightarrow> real \<times> 'g\<close> returning the value drawn and the advanced state.
  \<^item> Isabelle reserves names that end in an underscore, so a member \<^verbatim>\<open>name_\<close> of
    a class is the field \<open>name_'\<close> of its record; where two classes share a member
    name the field is written with its record, as in \<open>SpatialPoint.r_'\<close>.
  \<^item> \<^verbatim>\<open>fatal_error\<close> does not return: a constructor that can call it has a result
    of type \<open>error + 'a\<close>, and \<open>Inl\<close> carries the message.
\<close>

section \<open>Positions\<close>

text \<open>
  Modelled from the spec: struct \<^verbatim>\<open>Position\<close> (\<^verbatim>\<open>position.h\<close>) is three doubles
  \<^verbatim>\<open>x\<close>, \<^verbatim>\<open>y\<close>, \<^verbatim>\<open>z\<close>; its operators \<^verbatim>\<open>+\<close>, \<^verbatim>\<open>-\<close> and \<^verbatim>\<open>*\<close> act
  component-wise (the spec: the box sampler "linearly interpolates component-wise").
\<close>

datatype Position = Position (pos_x: real) (pos_y: real) (pos_z: real)

instantiation Position :: "{plus, minus, times}"
begin

definition plus_Position :: "Position \<Rightarrow> Position \<Rightarrow> Position" where
  "plus_Position a b = Position (pos_x a + pos_x b) (pos_y a + pos_y b) (pos_z a + pos_z b)"

definition minus_Position :: "Position \<Rightarrow> Position \<Rightarrow> Position" where
  "minus_Position a b = Position (pos_x a - pos_x b) (pos_y a - pos_y b) (pos_z a - pos_z b)"

definition times_Position :: "Position \<Rightarrow> Position \<Rightarrow> Position" where
  "times_Position a b = Position (pos_x a * pos_x b) (pos_y a * pos_y b) (pos_z a * pos_z b)"

instance ..

end

text \<open>
  Modelled from the spec: the constructor of \<^verbatim>\<open>Position\<close> from a pointer, used as
  \<^verbatim>\<open>Position{params.data()}\<close>, is declared in \<^verbatim>\<open>position.h\<close>. The spec has the point
  take its three values x, y, z in order: the doubles at offsets 0, 1, 2.
\<close>

definition Position_of_array :: "real list \<Rightarrow> Position" where
  "Position_of_array xyz = Position (xyz ! 0) (xyz ! 1) (xyz ! 2)"

section \<open>Errors and the parts taken as parameters\<close>

datatype error = FatalError string | DataError string

text \<open>
  Modelled from the spec: \<^verbatim>\<open>fatal_error\<close> (\<^verbatim>\<open>error.h\<close>) raises a fatal error that
  aborts setup or the run at once; nothing after the call is executed.
\<close>

definition fatal_error :: "string \<Rightarrow> error + 'a" where
  "fatal_error message = Inl (FatalError message)"

text \<open>
  The pseudorandom stream: \<open>prn g\<close> is the value drawn at state \<open>g\<close> and the state
  after the draw.
\<close>

type_synonym 'g prn = "'g \<Rightarrow> real \<times> 'g"

text \<open>
  Univariate distributions (\<^verbatim>\<open>UPtrDist\<close>, \<^verbatim>\<open>distribution.h\<close>). The constructors of
  this file build exactly one kind themselves, \<^verbatim>\<open>Discrete{x, p, 1}\<close>; every other
  one is returned by \<^verbatim>\<open>distribution_from_xml\<close> and is kept as its sampling
  function on the stream.
\<close>

datatype 'g Distribution =
    Discrete "real list" "real list" nat
  | Sampler "'g \<Rightarrow> real \<times> 'g"

text \<open>
  Modelled from the spec: \<^verbatim>\<open>Discrete::sample\<close> is not part of the embedded sources.
  The spec calls the object built for an absent axis, one point \<^verbatim>\<open>x[0]\<close> of
  probability 1, a fixed-point sampler at that coordinate: it returns the point and
  leaves the stream alone.
\<close>

fun Distribution_sample :: "'g Distribution \<Rightarrow> 'g \<Rightarrow> real \<times> 'g" where
  "Distribution_sample (Discrete x p n) g = (x ! 0, g)"
| "Distribution_sample (Sampler f) g = f g"

text \<open>
  The configuration reader (\<^verbatim>\<open>xml_interface.h\<close>, pugixml and
  \<^verbatim>\<open>distribution_from_xml\<close>) over an arbitrary node type \<open>'n\<close>.
\<close>

record ('n, 'g) xml_interface =
  check_for_node :: "'n \<Rightarrow> string \<Rightarrow> bool"
  child :: "'n \<Rightarrow> string \<Rightarrow> 'n"
  get_node_array :: "'n \<Rightarrow> string \<Rightarrow> real list"
  distribution_from_xml :: "'n \<Rightarrow> 'g Distribution"

text \<open>\<open>draws f n g\<close>: the results of \<open>n\<close> successive calls of a sampler, and the final stream.\<close>

fun draws :: "('g \<Rightarrow> 'a \<times> 'g) \<Rightarrow> nat \<Rightarrow> 'g \<Rightarrow> 'a list \<times> 'g" where
  "draws f 0 g = ([], g)"
| "draws f (Suc n) g =
     (let (a, g1) = f g; (as, g2) = draws f n g1 in (a # as, g2))"

section \<open>CartesianIndependent and CylindricalIndependent\<close>

record 'g CartesianIndependent =
  x_' :: "'g Distribution"
  y_' :: "'g Distribution"
  z_' :: "'g Distribution"

definition CartesianIndependent_ctor ::
  "('n, 'g) xml_interface \<Rightarrow> 'n \<Rightarrow> 'g CartesianIndependent" where
  "CartesianIndependent_ctor xml node =
     \<lparr> x_' = (if check_for_node xml node ''x''
               then distribution_from_xml xml (child xml node ''x'')
               else Discrete [0.0] [1.0] 1),
       y_' = (if check_for_node xml node ''y''
               then distribution_from_xml xml (child xml node ''y'')
               else Discrete [0.0] [1.0] 1),
       CartesianIndependent.z_' =
              (if check_for_node xml node ''z''
               then distribution_from_xml xml (child xml node ''z'')
               else Discrete [0.0] [1.0] 1) \<rparr>"

text \<open>The braced initialiser list evaluates its three calls from left to right.\<close>

definition CartesianIndependent_sample ::
  "'g CartesianIndependent \<Rightarrow> 'g \<Rightarrow> Position \<times> 'g" where
  "CartesianIndependent_sample this g =
     (let (x, g1) = Distribution_sample (x_' this) g;
          (y, g2) = Distribution_sample (y_' this) g1;
          (z, g3) = Distribution_sample (CartesianIndependent.z_' this) g2
      in (Position x y z, g3))"

record 'g CylindricalIndependent =
  r_' :: "'g Distribution"
  theta_' :: "'g Distribution"
  z_' :: "'g Distribution"

definition CylindricalIndependent_ctor ::
  "('n, 'g) xml_interface \<Rightarrow> 'n \<Rightarrow> 'g CylindricalIndependent" where
  "CylindricalIndependent_ctor xml node =
     \<lparr> CylindricalIndependent.r_' =
              (if check_for_node xml node ''r''
               then distribution_from_xml xml (child xml node ''r'')
               else Discrete [0.0] [1.0] 1),
       theta_' = (if check_for_node xml node ''theta''
               then distribution_from_xml xml (child xml node ''theta'')
               else Discrete [0.0] [1.0] 1),
       CylindricalIndependent.z_' =
              (if check_for_node xml node ''z''
               then distribution_from_xml xml (child xml node ''z'')
               else Discrete [0.0] [1.0] 1) \<rparr>"

definition CylindricalIndependent_sample ::
  "'g CylindricalIndependent \<Rightarrow> 'g \<Rightarrow> Position \<times> 'g" where
  "CylindricalIndependent_sample this g =
     (let (r, g1) = Distribution_sample (CylindricalIndependent.r_' this) g;
          (theta, g2) = Distribution_sample (theta_' this) g1;
          (z, g3) = Distribution_sample (CylindricalIndependent.z_' this) g2
      in (Position (r * cos theta) (r * sin theta) z, g3))"

section \<open>SpatialBox and SpatialPoint\<close>

record SpatialBox =
  lower_left_' :: Position
  upper_right_' :: Position
  only_fissionable_' :: bool

definition SpatialBox_ctor ::
  "('n, 'g) xml_interface \<Rightarrow> 'n \<Rightarrow> bool \<Rightarrow> error + SpatialBox" where
  "SpatialBox_ctor xml node fission =
     (let params = get_node_array xml node ''parameters'' in
      if length params \<noteq> 6
      then fatal_error ''Box/fission spatial source must have six parameters specified.''
      else Inr \<lparr> lower_left_' = Position (params ! 0) (params ! 1) (params ! 2),
                 upper_right_' = Position (params ! 3) (params ! 4) (params ! 5),
                 only_fissionable_' = fission \<rparr>)"

definition SpatialBox_sample :: "'g prn \<Rightarrow> SpatialBox \<Rightarrow> 'g \<Rightarrow> Position \<times> 'g" where
  "SpatialBox_sample prn this g =
     (let (xi1, g1) = prn g;
          (xi2, g2) = prn g1;
          (xi3, g3) = prn g2;
          xi = Position xi1 xi2 xi3
      in (lower_left_' this + xi * (upper_right_' this - lower_left_' this), g3))"

record SpatialPoint =
  r_' :: Position

definition SpatialPoint_ctor :: "('n, 'g) xml_interface \<Rightarrow> 'n \<Rightarrow> error + SpatialPoint" where
  "SpatialPoint_ctor xml node =
     (let params = get_node_array xml node ''parameters'' in
      if length params \<noteq> 3
      then fatal_error ''Point spatial source must have three parameters specified.''
      else Inr \<lparr> SpatialPoint.r_' = Position_of_array params \<rparr>)"

definition SpatialPoint_sample :: "SpatialPoint \<Rightarrow> 'g \<Rightarrow> Position \<times> 'g" where
  "SpatialPoint_sample this g = (SpatialPoint.r_' this, g)"

text \<open>Component-wise order on positions, and membership in the box.\<close>

definition pos_le :: "Position \<Rightarrow> Position \<Rightarrow> bool" where
  "pos_le a b \<longleftrightarrow> pos_x a \<le> pos_x b \<and> pos_y a \<le> pos_y b \<and> pos_z a \<le> pos_z b"

definition in_box :: "SpatialBox \<Rightarrow> Position \<Rightarrow> bool" where
  "in_box b p \<longleftrightarrow> pos_le (lower_left_' b) p \<and> pos_le p (upper_right_' b)"

section \<open>Double arithmetic with overflow\<close>

text \<open>
  The arithmetic of \<^verbatim>\<open>double\<close> departs from that of \<^typ>\<open>real\<close> in that a finite
  result is rounded and a result too large is an infinity. The second is modelled here:
  \<open>fl r\<close> is what an operation with the exact result \<open>r\<close> delivers, an infinity from the
  overflow threshold of rounding to nearest, \<open>2^1024 - 2^970\<close>, on. The rounding of a
  finite result is left out: it is delivered as it is.
\<close>

datatype double = Finite real | PlusInfinity | MinusInfinity | NaN

definition DBL_MAX :: real where
  "DBL_MAX = 2 ^ 1024 - 2 ^ 971"

definition overflow_threshold :: real where
  "overflow_threshold = 2 ^ 1024 - 2 ^ 970"

definition fl :: "real \<Rightarrow> double" where
  "fl r = (if overflow_threshold \<le> r then PlusInfinity
           else if r \<le> - overflow_threshold then MinusInfinity
           else Finite r)"

fun double_neg :: "double \<Rightarrow> double" where
  "double_neg (Finite a) = Finite (- a)"
| "double_neg PlusInfinity = MinusInfinity"
| "double_neg MinusInfinity = PlusInfinity"
| "double_neg NaN = NaN"

fun double_add :: "double \<Rightarrow> double \<Rightarrow> double" where
  "double_add (Finite a) (Finite b) = fl (a + b)"
| "double_add (Finite a) PlusInfinity = PlusInfinity"
| "double_add (Finite a) MinusInfinity = MinusInfinity"
| "double_add PlusInfinity (Finite b) = PlusInfinity"
| "double_add PlusInfinity PlusInfinity = PlusInfinity"
| "double_add PlusInfinity MinusInfinity = NaN"
| "double_add MinusInfinity (Finite b) = MinusInfinity"
| "double_add MinusInfinity PlusInfinity = NaN"
| "double_add MinusInfinity MinusInfinity = MinusInfinity"
| "double_add NaN b = NaN"
| "double_add a NaN = NaN"

definition double_sub :: "double \<Rightarrow> double \<Rightarrow> double" where
  "double_sub a b = double_add a (double_neg b)"

fun double_mul :: "double \<Rightarrow> double \<Rightarrow> double" where
  "double_mul (Finite a) (Finite b) = fl (a * b)"
| "double_mul (Finite a) PlusInfinity =
     (if a = 0 then NaN else if 0 < a then PlusInfinity else MinusInfinity)"
| "double_mul (Finite a) MinusInfinity =
     (if a = 0 then NaN else if 0 < a then MinusInfinity else PlusInfinity)"
| "double_mul PlusInfinity (Finite b) =
     (if b = 0 then NaN else if 0 < b then PlusInfinity else MinusInfinity)"
| "double_mul MinusInfinity (Finite b) =
     (if b = 0 then NaN else if 0 < b then MinusInfinity else PlusInfinity)"
| "double_mul PlusInfinity PlusInfinity = PlusInfinity"
| "double_mul PlusInfinity MinusInfinity = MinusInfinity"
| "double_mul MinusInfinity PlusInfinity = MinusInfinity"
| "double_mul MinusInfinity MinusInfinity = PlusInfinity"
| "double_mul NaN b = NaN"
| "double_mul a NaN = NaN"

text \<open>The comparison \<^verbatim>\<open><=\<close>: false as soon as one side is NaN.\<close>

fun double_le :: "double \<Rightarrow> double \<Rightarrow> bool" where
  "double_le (Finite a) (Finite b) \<longleftrightarrow> a \<le> b"
| "double_le (Finite a) PlusInfinity \<longleftrightarrow> True"
| "double_le (Finite a) MinusInfinity \<longleftrightarrow> False"
| "double_le PlusInfinity (Finite b) \<longleftrightarrow> False"
| "double_le PlusInfinity PlusInfinity \<longleftrightarrow> True"
| "double_le PlusInfinity MinusInfinity \<longleftrightarrow> False"
| "double_le MinusInfinity (Finite b) \<longleftrightarrow> True"
| "double_le MinusInfinity PlusInfinity \<longleftrightarrow> True"
| "double_le MinusInfinity MinusInfinity \<longleftrightarrow> True"
| "double_le NaN b \<longleftrightarrow> False"
| "double_le a NaN \<longleftrightarrow> False"

text \<open>\<^verbatim>\<open>Position\<close> over this arithmetic, with the same component-wise operators.\<close>

datatype Position_double =
  Position_double (dpos_x: double) (dpos_y: double) (dpos_z: double)

instantiation Position_double :: "{plus, minus, times}"
begin

definition plus_Position_double :: "Position_double \<Rightarrow> Position_double \<Rightarrow> Position_double" where
  "plus_Position_double a b =
     Position_double (double_add (dpos_x a) (dpos_x b)) (double_add (dpos_y a) (dpos_y b))
       (double_add (dpos_z a) (dpos_z b))"

definition minus_Position_double :: "Position_double \<Rightarrow> Position_double \<Rightarrow> Position_double" where
  "minus_Position_double a b =
     Position_double (double_sub (dpos_x a) (dpos_x b)) (double_sub (dpos_y a) (dpos_y b))
       (double_sub (dpos_z a) (dpos_z b))"

definition times_Position_double :: "Position_double \<Rightarrow> Position_double \<Rightarrow> Position_double" where
  "times_Position_double a b =
     Position_double (double_mul (dpos_x a) (dpos_x b)) (double_mul (dpos_y a) (dpos_y b))
       (double_mul (dpos_z a) (dpos_z b))"

instance ..

end

text \<open>A stored bound or a drawn value is a finite \<^verbatim>\<open>double\<close>.\<close>

definition as_double :: "Position \<Rightarrow> Position_double" where
  "as_double p = Position_double (Finite (pos_x p)) (Finite (pos_y p)) (Finite (pos_z p))"

text \<open>\<^verbatim>\<open>SpatialBox::sample\<close>, the same body, computed in this arithmetic.\<close>

definition SpatialBox_sample_double ::
  "'g prn \<Rightarrow> SpatialBox \<Rightarrow> 'g \<Rightarrow> Position_double \<times> 'g" where
  "SpatialBox_sample_double prn this g =
     (let (xi1, g1) = prn g;
          (xi2, g2) = prn g1;
          (xi3, g3) = prn g2;
          xi = as_double (Position xi1 xi2 xi3)
      in (as_double (lower_left_' this)
            + xi * (as_double (upper_right_' this) - as_double (lower_left_' this)), g3))"

definition dpos_le :: "Position_double \<Rightarrow> Position_double \<Rightarrow> bool" where
  "dpos_le a b \<longleftrightarrow>
     double_le (dpos_x a) (dpos_x b) \<and> double_le (dpos_y a) (dpos_y b)
     \<and> double_le (dpos_z a) (dpos_z b)"

definition in_box_double :: "SpatialBox \<Rightarrow> Position_double \<Rightarrow> bool" where
  "in_box_double b p \<longleftrightarrow>
     dpos_le (as_double (lower_left_' b)) p \<and> dpos_le p (as_double (upper_right_' b))"

text \<open>
  The bounds of a box are in the range of \<^verbatim>\<open>double\<close>, and the difference of the upper
  and the lower bound stays below the overflow threshold in each component.
\<close>

definition difference_finite :: "real \<Rightarrow> real \<Rightarrow> bool" where
  "difference_finite lo hi \<longleftrightarrow>
     \<bar>lo\<bar> \<le> DBL_MAX \<and> \<bar>hi\<bar> \<le> DBL_MAX \<and> hi - lo < overflow_threshold"

definition no_overflow :: "SpatialBox \<Rightarrow> bool" where
  "no_overflow b \<longleftrightarrow>
     difference_finite (pos_x (lower_left_' b)) (pos_x (upper_right_' b))
     \<and> difference_finite (pos_y (lower_left_' b)) (pos_y (upper_right_' b))
     \<and> difference_finite (pos_z (lower_left_' b)) (pos_z (upper_right_' b))"

section \<open>Sampling as a method call\<close>

text \<open>
  The four bodies of \<^verbatim>\<open>sample() const\<close> once more, now on the state a call runs in:
  the object the method is called on and the shared stream. Members are read from the
  object in the state, and a write to a member would be an update of it. \<^verbatim>\<open>prn()\<close>
  takes no argument and acts on the stream.
\<close>

record ('o, 'g) call_state =
  object :: 'o
  stream :: 'g

definition call_prn :: "'g prn \<Rightarrow> ('o, 'g) call_state \<Rightarrow> real \<times> ('o, 'g) call_state" where
  "call_prn prn s = (let (xi, g1) = prn (stream s) in (xi, s\<lparr> stream := g1 \<rparr>))"

text \<open>
  Modelled from the spec: \<^verbatim>\<open>Distribution::sample\<close> of a child sampler
  (\<^verbatim>\<open>distribution.h\<close>) is read-only with respect to the distribution's own state; its
  only mutation is advancing the shared stream.
\<close>

definition call_child ::
  "'g Distribution \<Rightarrow> ('o, 'g) call_state \<Rightarrow> real \<times> ('o, 'g) call_state" where
  "call_child d s = (let (v, g1) = Distribution_sample d (stream s) in (v, s\<lparr> stream := g1 \<rparr>))"

definition CartesianIndependent_sample_call ::
  "('g CartesianIndependent, 'g) call_state
     \<Rightarrow> Position \<times> ('g CartesianIndependent, 'g) call_state" where
  "CartesianIndependent_sample_call s0 =
     (let (x, s1) = call_child (x_' (object s0)) s0;
          (y, s2) = call_child (y_' (object s1)) s1;
          (z, s3) = call_child (CartesianIndependent.z_' (object s2)) s2
      in (Position x y z, s3))"

definition CylindricalIndependent_sample_call ::
  "('g CylindricalIndependent, 'g) call_state
     \<Rightarrow> Position \<times> ('g CylindricalIndependent, 'g) call_state" where
  "CylindricalIndependent_sample_call s0 =
     (let (r, s1) = call_child (CylindricalIndependent.r_' (object s0)) s0;
          (theta, s2) = call_child (theta_' (object s1)) s1;
          (z, s3) = call_child (CylindricalIndependent.z_' (object s2)) s2
      in (Position (r * cos theta) (r * sin theta) z, s3))"

definition SpatialBox_sample_call ::
  "'g prn \<Rightarrow> (SpatialBox, 'g) call_state \<Rightarrow> Position \<times> (SpatialBox, 'g) call_state" where
  "SpatialBox_sample_call prn s0 =
     (let (xi1, s1) = call_prn prn s0;
          (xi2, s2) = call_prn prn s1;
          (xi3, s3) = call_prn prn s2;
          xi = Position xi1 xi2 xi3
      in (lower_left_' (object s3)
            + xi * (upper_right_' (object s3) - lower_left_' (object s3)), s3))"

definition SpatialPoint_sample_call ::
  "(SpatialPoint, 'g) call_state \<Rightarrow> Position \<times> (SpatialPoint, 'g) call_state" where
  "SpatialPoint_sample_call s0 = (SpatialPoint.r_' (object s0), s0)"

section \<open>Particles\<close>

text \<open>
  The declarations of \<^verbatim>\<open>particle.h\<close>. An \<^verbatim>\<open>int\<close> or \<^verbatim>\<open>int64_t\<close> member is an
  \<^typ>\<open>int\<close>: the operations below add at most 1 to a count bounded by
  \<^verbatim>\<open>MAX_SECONDARY\<close>, far from the range where the machine integer wraps. An array
  \<^verbatim>\<open>double[3]\<close> is a triple, an array of another fixed length a list.
\<close>

definition MAX_DELAYED_GROUPS :: int where
  "MAX_DELAYED_GROUPS = 8"

definition MAX_SECONDARY :: int where
  "MAX_SECONDARY = 1000"

definition MAX_LOST_PARTICLES :: int where
  "MAX_LOST_PARTICLES = 10"

datatype ParticleType = neutron | photon | electron | positron

type_synonym double3 = "real \<times> real \<times> real"

record LocalCoord =
  cell :: int
  universe :: int
  lattice :: int
  lattice_x :: int
  lattice_y :: int
  lattice_z :: int
  xyz :: double3
  uvw :: double3
  rotated :: bool

text \<open>
  Modelled from the spec: \<^verbatim>\<open>LocalCoord::reset\<close> is declared only. Reset of a level
  returns it to the canonical unset state: all handles invalid (the value \<open>-1\<close> of the
  member initialisers), not rotated.
\<close>

definition LocalCoord_reset :: "LocalCoord \<Rightarrow> LocalCoord" where
  "LocalCoord_reset c =
     c\<lparr> cell := - 1, universe := - 1, lattice := - 1,
        lattice_x := - 1, lattice_y := - 1, lattice_z := - 1, rotated := False \<rparr>"

text \<open>
  Modelled from the spec: struct \<^verbatim>\<open>Bank\<close> (\<^verbatim>\<open>capi.h\<close>), the Source Record: position,
  direction, energy (a continuous value or a group index, in one slot), statistical
  weight, particle kind, delayed-group tag.
\<close>

record Bank =
  position :: double3
  direction :: double3
  energy :: real
  weight :: real
  kind :: int
  delayed_group :: int

record Particle =
  id_' :: int
  type_' :: int
  n_coord_' :: int
  cell_instance_' :: int
  coord_' :: "LocalCoord list"
  last_n_coord_' :: int
  last_cell_' :: "int list"
  E_' :: real
  last_E_' :: real
  g_' :: int
  last_g_' :: int
  wgt_' :: real
  mu_' :: real
  alive_' :: bool
  last_xyz_current_' :: double3
  last_xyz_' :: double3
  last_uvw_' :: double3
  last_wgt_' :: real
  absorb_wgt_' :: real
  fission_' :: bool
  event_' :: int
  event_nuclide_' :: int
  event_mt_' :: int
  delayed_group_' :: int
  n_bank_' :: int
  wgt_bank_' :: real
  n_delayed_bank_' :: "int list"
  surface_' :: int
  cell_born_' :: int
  material_' :: int
  last_material_' :: int
  sqrtkT_' :: real
  last_sqrtkT_' :: real
  n_collision_' :: int
  write_track_' :: bool
  n_secondary_' :: int
  secondary_bank_' :: "Bank list"

text \<open>
  Modelled from the spec: \<^verbatim>\<open>Particle::create_secondary\<close> is declared only. It appends
  a new Source Record (current position, the given direction, energy and kind, current
  weight) to the Secondary Bank and increments its count; a bank at capacity is a fatal
  error, never a silent drop or overwrite. The position is that of level 0 of the
  coordinate stack, where \<^verbatim>\<open>from_source\<close> puts it. The spec gives the flag
  \<^verbatim>\<open>run_CE\<close> no effect on what is stored. The result is the error raised, if any, and
  the particle at that moment.
\<close>

definition create_secondary ::
  "double3 \<Rightarrow> real \<Rightarrow> int \<Rightarrow> bool \<Rightarrow> Particle \<Rightarrow> error option \<times> Particle" where
  "create_secondary uvw1 E type run_CE this =
     (if MAX_SECONDARY \<le> n_secondary_' this
      then (Some (FatalError ''Too many secondary particles created.''), this)
      else
        let n = nat (n_secondary_' this);
            site = (secondary_bank_' this ! n)
                     \<lparr> position := xyz (coord_' this ! 0), direction := uvw1,
                        energy := E, weight := wgt_' this, kind := type \<rparr>
        in (None, this\<lparr> secondary_bank_' := (secondary_bank_' this)[n := site],
                        n_secondary_' := n_secondary_' this + 1 \<rparr>))"

text \<open>
  Modelled from the spec: \<^verbatim>\<open>Particle::from_source\<close> is declared only. It loads the
  record's position and direction into level 0 of the coordinate stack and its energy,
  weight, kind and delayed group into the scalar fields, clears the stack above level 0,
  resets the Secondary Bank, sets alive and resets the per-history counters. A record
  outside the valid ranges (weight > 0, energy within the configured bounds
  \<open>E_min\<close>, \<open>E_max\<close>) is an error surfaced to the caller.
\<close>

definition from_source :: "real \<Rightarrow> real \<Rightarrow> Bank \<Rightarrow> Particle \<Rightarrow> error + Particle" where
  "from_source E_min E_max src this =
     (if \<not> (0 < weight src \<and> E_min \<le> energy src \<and> energy src \<le> E_max)
      then Inl (DataError ''Source site outside the valid ranges.'')
      else Inr (this\<lparr>
        coord_' := (case coord_' this of
                      [] \<Rightarrow> []
                    | c0 # levels \<Rightarrow>
                        c0\<lparr> xyz := position src, uvw := direction src \<rparr>
                          # map LocalCoord_reset levels),
        n_coord_' := 1,
        E_' := energy src,
        wgt_' := weight src,
        type_' := kind src,
        delayed_group_' := delayed_group src,
        n_secondary_' := 0,
        alive_' := True,
        n_collision_' := 0,
        n_bank_' := 0,
        wgt_bank_' := 0,
        n_delayed_bank_' := map (\<lambda>n. 0) (n_delayed_bank_' this) \<rparr>))"




section \<open>Concrete configurations\<close>

text \<open>
  A reader whose nodes are their own \<^verbatim>\<open>parameters\<close> array and have no children, and
  a generator on a counter that cycles through 0, 1/4, 1/2, 3/4; a box with ordered
  bounds and one whose lower x bound lies above its upper x bound.
\<close>

definition array_xml :: "(real list, nat) xml_interface" where
  "array_xml = \<lparr> check_for_node = (\<lambda>node name. False),
                 child = (\<lambda>node name. node),
                 get_node_array = (\<lambda>node name. if name = ''parameters'' then node else []),
                 distribution_from_xml = (\<lambda>node. Discrete node [1.0] 1) \<rparr>"

definition cycle_prn :: "nat prn" where
  "cycle_prn g = (real (g mod 4) / 4, Suc g)"

definition ordered_box :: SpatialBox where
  "ordered_box = \<lparr> lower_left_' = Position 0 0 0, upper_right_' = Position 1 2 4,
                   only_fissionable_' = False \<rparr>"

definition inverted_box :: SpatialBox where
  "inverted_box = \<lparr> lower_left_' = Position 1 0 0, upper_right_' = Position 0 1 1,
                    only_fissionable_' = False \<rparr>"

text \<open>
  A box from \<open>-2^1023\<close> to \<open>2^1023\<close> on each axis: ordered bounds, powers of two in the
  range of \<^verbatim>\<open>double\<close>, whose difference \<open>2^1024\<close> is not.
\<close>

definition huge_box :: SpatialBox where
  "huge_box = \<lparr> lower_left_' = Position (- (2 ^ 1023)) (- (2 ^ 1023)) (- (2 ^ 1023)),
                upper_right_' = Position (2 ^ 1023) (2 ^ 1023) (2 ^ 1023),
                only_fissionable_' = False \<rparr>"

text \<open>
  A particle with three coordinate levels, of which the upper two are in use, and a
  Secondary Bank of \<^verbatim>\<open>MAX_SECONDARY\<close> slots holding two records; a run in which
  nothing has been reported yet; a source site.
\<close>

definition empty_site :: Bank where
  "empty_site = \<lparr> position = (0, 0, 0), direction = (0, 0, 0), energy = 0, weight = 0,
                  kind = 0, delayed_group = 0 \<rparr>"

definition used_level :: LocalCoord where
  "used_level = \<lparr> cell = 4, universe = 2, lattice = 1, lattice_x = 0, lattice_y = 3,
                  lattice_z = 5, xyz = (7, 8, 9), uvw = (1, 0, 0), rotated = True \<rparr>"

definition some_particle :: Particle where
  "some_particle =
     \<lparr> id_' = 42, type_' = 0, n_coord_' = 3, cell_instance_' = 0,
       coord_' = [used_level, used_level, used_level],
       last_n_coord_' = 1, last_cell_' = [4, 4, 4],
       E_' = 2, last_E_' = 2, g_' = 0, last_g_' = 0,
       wgt_' = 1 / 2, mu_' = 0, alive_' = True,
       last_xyz_current_' = (7, 8, 9), last_xyz_' = (7, 8, 9), last_uvw_' = (1, 0, 0),
       last_wgt_' = 1, absorb_wgt_' = 0,
       fission_' = False, event_' = 0, event_nuclide_' = 0, event_mt_' = 0,
       delayed_group_' = 0,
       n_bank_' = 1, wgt_bank_' = 1, n_delayed_bank_' = [0, 1, 0, 0, 0, 0, 0, 0],
       surface_' = 0, cell_born_' = 4, material_' = 1, last_material_' = 1,
       sqrtkT_' = 0, last_sqrtkT_' = 0,
       n_collision_' = 5, write_track_' = False,
       n_secondary_' = 2, secondary_bank_' = replicate 1000 empty_site \<rparr>"


definition some_site :: Bank where
  "some_site = \<lparr> position = (1, 2, 3), direction = (0, 0, 1), energy = 1000000,
                 weight = 1, kind = 1, delayed_group = 2 \<rparr>"

section \<open>Auxiliary facts\<close>

lemma SpatialBox_sample_unfold: "SpatialBox_sample prn b g =
   (lower_left_' b + Position (fst (prn g)) (fst (prn (snd (prn g)))) (fst (prn (snd (prn (snd (prn g))))))
       * (upper_right_' b - lower_left_' b), snd (prn (snd (prn (snd (prn g))))))"
  by (simp add: SpatialBox_sample_def split_beta)

lemma interp_bounds:
  fixes lo hi xi :: real
  assumes "lo \<le> hi" "0 \<le> xi" "xi < 1"
  shows "lo \<le> lo + xi * (hi - lo)" "lo + xi * (hi - lo) \<le> hi"
proof -
  have "0 \<le> xi * (hi - lo)" using assms by simp
  then show "lo \<le> lo + xi * (hi - lo)" by simp
  have "xi * (hi - lo) \<le> 1 * (hi - lo)"
    using assms by (intro mult_right_mono) simp_all
  then show "lo + xi * (hi - lo) \<le> hi" by simp
qed

lemma SpatialBox_sample_in_box_aux:
  assumes "pos_le (lower_left_' b) (upper_right_' b)"
    and "\<forall>g. 0 \<le> fst (prn g) \<and> fst (prn g) < 1"
  shows "in_box b (fst (SpatialBox_sample prn b g))"
  using assms
  by (simp add: SpatialBox_sample_unfold in_box_def pos_le_def plus_Position_def minus_Position_def
      times_Position_def interp_bounds)

lemma draws_length: "length (fst (draws f n g)) = n"
  by (induction n arbitrary: g) (simp_all add: split_beta Let_def)

lemma draws_all:
  assumes "\<And>g. P (fst (f g))"
  shows "\<forall>a \<in> set (fst (draws f n g)). P a"
  using assms by (induction n arbitrary: g) (simp_all add: split_beta Let_def)

lemma draws_stream:
  assumes "\<And>g. snd (f g) = h g"
  shows "snd (draws f n g) = (h ^^ n) g"
  using assms by (induction n arbitrary: g) (simp_all add: split_beta Let_def funpow_swap1)


lemma draws_const:
  assumes "\<And>g. f g = (a, g)"
  shows "draws f n g = (replicate n a, g)"
  using assms by (induction n arbitrary: g) simp_all

lemma cycle_prn_range: "\<forall>g. 0 \<le> fst (cycle_prn g) \<and> fst (cycle_prn g) < 1"
  by (simp add: cycle_prn_def)

lemma cycle_prn_ordered_box:
  "SpatialBox_sample cycle_prn ordered_box 1 = (Position (1/4) 1 3, 4)"
  by (simp add: SpatialBox_sample_unfold cycle_prn_def ordered_box_def plus_Position_def minus_Position_def
      times_Position_def)


lemma threshold_pos: "DBL_MAX < overflow_threshold" "0 < DBL_MAX"
  by (simp_all add: DBL_MAX_def overflow_threshold_def)

lemma fl_finite: "\<bar>r\<bar> < overflow_threshold \<Longrightarrow> fl r = Finite r"
  by (auto simp add: fl_def)

lemma interpolate_double:
  assumes "lo \<le> hi" and "difference_finite lo hi" and "0 \<le> xi" and "xi < 1"
  shows "double_add (Finite lo) (double_mul (Finite xi) (double_sub (Finite hi) (Finite lo)))
           = Finite (lo + xi * (hi - lo))"
proof -
  from assms(2) have r: "\<bar>lo\<bar> \<le> DBL_MAX" "\<bar>hi\<bar> \<le> DBL_MAX" "hi - lo < overflow_threshold"
    by (simp_all add: difference_finite_def)
  have d: "fl (hi - lo) = Finite (hi - lo)"
    using assms(1) r(3) by (intro fl_finite) simp
  have b: "lo \<le> lo + xi * (hi - lo)" "lo + xi * (hi - lo) \<le> hi"
    using assms(1,3,4) by (rule interp_bounds)+
  have "0 \<le> xi * (hi - lo)" "xi * (hi - lo) \<le> hi - lo"
    using b by simp_all
  then have m: "fl (xi * (hi - lo)) = Finite (xi * (hi - lo))"
    using r(3) by (intro fl_finite) simp
  have "\<bar>lo + xi * (hi - lo)\<bar> \<le> DBL_MAX"
    using b r(1,2) by linarith
  then have a: "fl (lo + xi * (hi - lo)) = Finite (lo + xi * (hi - lo))"
    using threshold_pos(1) by (intro fl_finite) linarith
  show ?thesis
    by (simp add: double_sub_def d m a)
qed

lemma SpatialBox_sample_double_unfold:
  "SpatialBox_sample_double prn b g =
   (as_double (lower_left_' b)
      + as_double (Position (fst (prn g)) (fst (prn (snd (prn g))))
          (fst (prn (snd (prn (snd (prn g)))))))
        * (as_double (upper_right_' b) - as_double (lower_left_' b)),
    snd (prn (snd (prn (snd (prn g))))))"
  by (simp add: SpatialBox_sample_double_def split_beta)

lemma SpatialBox_sample_double_exact:
  assumes "pos_le (lower_left_' b) (upper_right_' b)" and "no_overflow b"
    and "\<forall>g. 0 \<le> fst (prn g) \<and> fst (prn g) < 1"
  shows "SpatialBox_sample_double prn b g
           = (as_double (fst (SpatialBox_sample prn b g)), snd (SpatialBox_sample prn b g))"
  using assms
  by (simp add: SpatialBox_sample_double_unfold SpatialBox_sample_unfold as_double_def
      plus_Position_double_def minus_Position_double_def times_Position_double_def
      plus_Position_def minus_Position_def times_Position_def pos_le_def no_overflow_def
      interpolate_double)

lemma in_box_double_as_double: "in_box_double b (as_double p) \<longleftrightarrow> in_box b p"
  by (simp add: in_box_double_def in_box_def dpos_le_def pos_le_def as_double_def)

lemma ordered_box_no_overflow: "no_overflow ordered_box"
  by (simp add: no_overflow_def difference_finite_def ordered_box_def DBL_MAX_def
      overflow_threshold_def)


section \<open>Construction and sampling of the box and the point\<close>

text \<open>
  Claim C1. A \<^verbatim>\<open>SpatialBox\<close> whose \<^verbatim>\<open>parameters\<close> array has a length other than 6,
  and a \<^verbatim>\<open>SpatialPoint\<close> whose array has a length other than 3, end construction in a
  fatal error, so no object exists on which \<^verbatim>\<open>sample\<close> could be called. With six values
  the box stores the first three as its lower and the last three as its upper bound, in
  the order x, y, z; with three values the point stores them as its position.
\<close>

theorem SpatialBox_ctor_parameter_count:
  "(length (get_node_array xml node ''parameters'') \<noteq> 6 \<longrightarrow>
      (\<exists>message. SpatialBox_ctor xml node fission = Inl (FatalError message)))
   \<and> (length (get_node_array xml node ''parameters'') = 6 \<longrightarrow>
      (\<exists>box. SpatialBox_ctor xml node fission = Inr box
         \<and> lower_left_' box = Position (get_node_array xml node ''parameters'' ! 0)
              (get_node_array xml node ''parameters'' ! 1) (get_node_array xml node ''parameters'' ! 2)
         \<and> upper_right_' box = Position (get_node_array xml node ''parameters'' ! 3)
              (get_node_array xml node ''parameters'' ! 4) (get_node_array xml node ''parameters'' ! 5)))
   \<and> (length (get_node_array xml node ''parameters'') \<noteq> 3 \<longrightarrow>
      (\<exists>message. SpatialPoint_ctor xml node = Inl (FatalError message)))
   \<and> (length (get_node_array xml node ''parameters'') = 3 \<longrightarrow>
      (\<exists>point. SpatialPoint_ctor xml node = Inr point
         \<and> SpatialPoint.r_' point = Position (get_node_array xml node ''parameters'' ! 0)
              (get_node_array xml node ''parameters'' ! 1) (get_node_array xml node ''parameters'' ! 2)))"
  by (simp add: SpatialBox_ctor_def SpatialPoint_ctor_def fatal_error_def Position_of_array_def Let_def)

theorem SpatialBox_ctor_parameter_count_witness:
  "(\<exists>message. SpatialBox_ctor array_xml [1, 2, 3] True = Inl (FatalError message))
   \<and> (\<exists>point. SpatialPoint_ctor array_xml [1, 2, 3] = Inr point
         \<and> SpatialPoint.r_' point = Position 1 2 3)
   \<and> (\<exists>box. SpatialBox_ctor array_xml [0, 0, 0, 1, 2, 4] True = Inr box
         \<and> lower_left_' box = Position 0 0 0 \<and> upper_right_' box = Position 1 2 4)
   \<and> (\<exists>message. SpatialPoint_ctor array_xml [0, 0, 0, 1, 2, 4] = Inl (FatalError message))"
  using SpatialBox_ctor_parameter_count [of array_xml "[1, 2, 3]" True]
    SpatialBox_ctor_parameter_count [of array_xml "[0, 0, 0, 1, 2, 4]" True]
  by (simp add: array_xml_def)

text \<open>
  Claim C2 says that every sample of a box with ordered bounds lies in the box. The
  constructor accepts the bounds \<open>-2^1023\<close> and \<open>2^1023\<close>; their difference overflows,
  and the sample is infinite, or NaN where the value drawn is 0: it is not in the box.
\<close>

theorem SpatialBox_sample_overflow:
  "SpatialBox_ctor array_xml
       [- (2 ^ 1023), - (2 ^ 1023), - (2 ^ 1023), 2 ^ 1023, 2 ^ 1023, 2 ^ 1023] False
     = Inr huge_box
   \<and> pos_le (lower_left_' huge_box) (upper_right_' huge_box)
   \<and> SpatialBox_sample_double cycle_prn huge_box 1
       = (Position_double PlusInfinity PlusInfinity PlusInfinity, 4)
   \<and> \<not> in_box_double huge_box (fst (SpatialBox_sample_double cycle_prn huge_box 1))
   \<and> fst (SpatialBox_sample_double cycle_prn huge_box 0)
       = Position_double NaN PlusInfinity PlusInfinity
   \<and> \<not> in_box_double huge_box (fst (SpatialBox_sample_double cycle_prn huge_box 0))"
proof -
  have s1: "SpatialBox_sample_double cycle_prn huge_box 1
       = (Position_double PlusInfinity PlusInfinity PlusInfinity, 4)"
    by (simp add: SpatialBox_sample_double_unfold cycle_prn_def huge_box_def as_double_def
        plus_Position_double_def minus_Position_double_def times_Position_double_def
        double_sub_def fl_def overflow_threshold_def)
  have s0: "fst (SpatialBox_sample_double cycle_prn huge_box 0)
       = Position_double NaN PlusInfinity PlusInfinity"
    by (simp add: SpatialBox_sample_double_unfold cycle_prn_def huge_box_def as_double_def
        plus_Position_double_def minus_Position_double_def times_Position_double_def
        double_sub_def fl_def overflow_threshold_def)
  have c: "SpatialBox_ctor array_xml
       [- (2 ^ 1023), - (2 ^ 1023), - (2 ^ 1023), 2 ^ 1023, 2 ^ 1023, 2 ^ 1023] False
     = Inr huge_box"
    by (simp add: SpatialBox_ctor_def array_xml_def huge_box_def)
  have o: "pos_le (lower_left_' huge_box) (upper_right_' huge_box)"
    by (simp add: pos_le_def huge_box_def)
  show ?thesis
    unfolding s0 unfolding s1
    using c o by (simp add: in_box_double_def dpos_le_def huge_box_def as_double_def)
qed

text \<open>
  Claim C2, as amended. For a box whose lower bound is component-wise at most its upper
  bound, whose bounds are in the range of \<^verbatim>\<open>double\<close> and whose difference of bounds
  stays below the overflow threshold, and a generator with values in [0,1), one call of
  \<^verbatim>\<open>sample\<close> draws three values \<open>xi1\<close>, \<open>xi2\<close>, \<open>xi3\<close> and returns
  \<open>lower + xi * (upper - lower)\<close> component-wise; the result lies in the box, so do all
  positions of \<open>n\<close> successive draws, and after \<open>n\<close> calls the stream has advanced by
  \<open>3 * n\<close> draws.
\<close>

theorem SpatialBox_sample_double_within_bounds:
  assumes "pos_le (lower_left_' b) (upper_right_' b)"
    and "no_overflow b"
    and "\<forall>g. 0 \<le> fst (prn g) \<and> fst (prn g) < 1"
  shows "(let xi1 = fst (prn g); g1 = snd (prn g);
              xi2 = fst (prn g1); g2 = snd (prn g1);
              xi3 = fst (prn g2); g3 = snd (prn g2)
          in SpatialBox_sample_double prn b g =
               (as_double (lower_left_' b + Position xi1 xi2 xi3
                                              * (upper_right_' b - lower_left_' b)), g3))
    \<and> in_box_double b (fst (SpatialBox_sample_double prn b g))
    \<and> length (fst (draws (SpatialBox_sample_double prn b) n g)) = n
    \<and> (\<forall>p \<in> set (fst (draws (SpatialBox_sample_double prn b) n g)). in_box_double b p)
    \<and> snd (draws (SpatialBox_sample_double prn b) n g) = ((\<lambda>g. snd (prn g)) ^^ (3 * n)) g"
proof -
  note exact = SpatialBox_sample_double_exact [OF assms]
  have one: "in_box_double b (fst (SpatialBox_sample_double prn b g))" for g
    using SpatialBox_sample_in_box_aux [OF assms(1,3)]
    by (simp add: exact in_box_double_as_double)
  have all: "\<forall>p \<in> set (fst (draws (SpatialBox_sample_double prn b) n g)). in_box_double b p"
    by (rule draws_all) (rule one)
  have "snd (SpatialBox_sample_double prn b g) = ((\<lambda>g. snd (prn g)) ^^ 3) g" for g
    by (simp add: SpatialBox_sample_double_unfold numeral_3_eq_3)
  then have "snd (draws (SpatialBox_sample_double prn b) n g)
      = (((\<lambda>g. snd (prn g)) ^^ 3) ^^ n) g"
    by (rule draws_stream)
  then have adv: "snd (draws (SpatialBox_sample_double prn b) n g)
      = ((\<lambda>g. snd (prn g)) ^^ (3 * n)) g"
    by (simp add: funpow_mult)
  have first: "SpatialBox_sample_double prn b g =
      (as_double (lower_left_' b + Position (fst (prn g)) (fst (prn (snd (prn g))))
            (fst (prn (snd (prn (snd (prn g))))))
          * (upper_right_' b - lower_left_' b)), snd (prn (snd (prn (snd (prn g))))))"
    by (simp add: exact SpatialBox_sample_unfold)
  have formula: "(let xi1 = fst (prn g); g1 = snd (prn g);
              xi2 = fst (prn g1); g2 = snd (prn g1);
              xi3 = fst (prn g2); g3 = snd (prn g2)
          in SpatialBox_sample_double prn b g =
               (as_double (lower_left_' b + Position xi1 xi2 xi3
                                              * (upper_right_' b - lower_left_' b)), g3))"
    unfolding Let_def by (rule first)
  from formula one all adv draws_length [of "SpatialBox_sample_double prn b" n g]
  show ?thesis by (intro conjI)
qed

theorem SpatialBox_sample_double_within_bounds_witness:
  "pos_le (lower_left_' ordered_box) (upper_right_' ordered_box)
   \<and> no_overflow ordered_box
   \<and> (\<forall>g. 0 \<le> fst (cycle_prn g) \<and> fst (cycle_prn g) < 1)
   \<and> SpatialBox_sample_double cycle_prn ordered_box 1
       = (Position_double (Finite (1/4)) (Finite 1) (Finite 3), 4)
   \<and> in_box_double ordered_box (Position_double (Finite (1/4)) (Finite 1) (Finite 3))
   \<and> length (fst (draws (SpatialBox_sample_double cycle_prn ordered_box) 2 1)) = 2
   \<and> list_all (in_box_double ordered_box)
        (fst (draws (SpatialBox_sample_double cycle_prn ordered_box) 2 1))"
proof -
  have le: "pos_le (lower_left_' ordered_box) (upper_right_' ordered_box)"
    by (simp add: pos_le_def ordered_box_def)
  note inst = SpatialBox_sample_double_within_bounds
    [OF le ordered_box_no_overflow cycle_prn_range, of 1 2]
  have val: "SpatialBox_sample_double cycle_prn ordered_box 1
       = (Position_double (Finite (1/4)) (Finite 1) (Finite 3), 4)"
    by (simp only: SpatialBox_sample_double_exact [OF le ordered_box_no_overflow cycle_prn_range]
        cycle_prn_ordered_box fst_conv snd_conv as_double_def Position.sel)
  from inst have "in_box_double ordered_box (fst (SpatialBox_sample_double cycle_prn ordered_box 1))"
    by (elim conjE)
  then have "in_box_double ordered_box (Position_double (Finite (1/4)) (Finite 1) (Finite 3))"
    by (simp only: val fst_conv)
  moreover from inst
  have "length (fst (draws (SpatialBox_sample_double cycle_prn ordered_box) 2 1)) = 2
    \<and> list_all (in_box_double ordered_box)
        (fst (draws (SpatialBox_sample_double cycle_prn ordered_box) 2 1))"
    unfolding list_all_iff by (elim conjE) (rule conjI)
  ultimately show ?thesis
    using le ordered_box_no_overflow cycle_prn_range val by blast
qed

section \<open>Sampling of the independent distributions\<close>

text \<open>
  Claim C3. \<^verbatim>\<open>CylindricalIndependent::sample\<close> draws \<open>r\<close> from the radius sampler, then
  \<open>theta\<close> from the angle sampler, then the height from the z sampler, each from its own
  child, and returns \<open>(r * cos theta, r * sin theta, z)\<close> with the radius used as drawn.
  Hence the squares of the x and y components sum to \<open>r\<^sup>2\<close> and the z component is
  the draw of the z sampler.
\<close>

theorem CylindricalIndependent_sample_polar:
  "(let (r, g1) = Distribution_sample (CylindricalIndependent.r_' d) g;
        (theta, g2) = Distribution_sample (theta_' d) g1;
        (zs, g3) = Distribution_sample (CylindricalIndependent.z_' d) g2;
        (p, g4) = CylindricalIndependent_sample d g
    in p = Position (r * cos theta) (r * sin theta) zs \<and> g4 = g3
       \<and> (pos_x p)\<^sup>2 + (pos_y p)\<^sup>2 = r\<^sup>2 \<and> pos_z p = zs)"
proof -
  have "(r * cos t)\<^sup>2 + (r * sin t)\<^sup>2 = r\<^sup>2" for r t :: real
  proof -
    have "(r * cos t)\<^sup>2 + (r * sin t)\<^sup>2 = r\<^sup>2 * ((cos t)\<^sup>2 + (sin t)\<^sup>2)"
      by (simp only: power_mult_distrib distrib_left)
    also have "\<dots> = r\<^sup>2" by simp
    finally show ?thesis .
  qed
  then show ?thesis
    by (simp add: CylindricalIndependent_sample_def split_beta)
qed

text \<open>
  Claim C4. The constructor of \<^verbatim>\<open>CartesianIndependent\<close> replaces each absent axis by
  \<^verbatim>\<open>Discrete{{0.0}, {1.0}, 1}\<close>, the fixed point at coordinate 0. With no \<^verbatim>\<open>x\<close>,
  \<^verbatim>\<open>y\<close> or \<^verbatim>\<open>z\<close> child every call of \<^verbatim>\<open>sample\<close> returns (0, 0, 0) and leaves the
  stream as it was; in general \<^verbatim>\<open>sample\<close> returns one draw of each child sampler, in the
  order x, y, z.
\<close>

theorem CartesianIndependent_default_origin:
  "(\<not> check_for_node xml node ''x'' \<longrightarrow>
      x_' (CartesianIndependent_ctor xml node) = Discrete [0] [1] 1)
   \<and> (\<not> check_for_node xml node ''y'' \<longrightarrow>
      y_' (CartesianIndependent_ctor xml node) = Discrete [0] [1] 1)
   \<and> (\<not> check_for_node xml node ''z'' \<longrightarrow>
      CartesianIndependent.z_' (CartesianIndependent_ctor xml node) = Discrete [0] [1] 1)
   \<and> (\<not> check_for_node xml node ''x'' \<and> \<not> check_for_node xml node ''y''
        \<and> \<not> check_for_node xml node ''z'' \<longrightarrow>
      CartesianIndependent_sample (CartesianIndependent_ctor xml node) g = (Position 0 0 0, g)
      \<and> draws (CartesianIndependent_sample (CartesianIndependent_ctor xml node)) n g
          = (replicate n (Position 0 0 0), g))
   \<and> (let (x, g1) = Distribution_sample (x_' d) g;
           (y, g2) = Distribution_sample (y_' d) g1;
           (z, g3) = Distribution_sample (CartesianIndependent.z_' d) g2
       in CartesianIndependent_sample d g = (Position x y z, g3))"
proof -
  have "draws (CartesianIndependent_sample (CartesianIndependent_ctor xml node)) n g
          = (replicate n (Position 0 0 0), g)"
    if "\<not> check_for_node xml node ''x''" "\<not> check_for_node xml node ''y''"
       "\<not> check_for_node xml node ''z''"
    using that
    by (intro draws_const) (simp add: CartesianIndependent_sample_def CartesianIndependent_ctor_def)
  then show ?thesis
    by (simp add: CartesianIndependent_sample_def CartesianIndependent_ctor_def split_beta)
qed

theorem CartesianIndependent_default_origin_witness:
  "\<not> check_for_node array_xml [] ''x'' \<and> \<not> check_for_node array_xml [] ''y''
   \<and> \<not> check_for_node array_xml [] ''z''
   \<and> x_' (CartesianIndependent_ctor array_xml []) = Discrete [0] [1] 1
   \<and> y_' (CartesianIndependent_ctor array_xml []) = Discrete [0] [1] 1
   \<and> CartesianIndependent.z_' (CartesianIndependent_ctor array_xml []) = Discrete [0] [1] 1
   \<and> CartesianIndependent_sample (CartesianIndependent_ctor array_xml []) (5::nat)
        = (Position 0 0 0, 5)
   \<and> draws (CartesianIndependent_sample (CartesianIndependent_ctor array_xml [])) 3 (5::nat)
        = ([Position 0 0 0, Position 0 0 0, Position 0 0 0], 5)"
proof -
  have no: "\<not> check_for_node array_xml [] ''x''" "\<not> check_for_node array_xml [] ''y''"
    "\<not> check_for_node array_xml [] ''z''"
    by (simp_all add: array_xml_def)
  have rep: "replicate 3 p = [p, p, p]" for p :: Position
    by (simp add: numeral_3_eq_3)
  show ?thesis
    using CartesianIndependent_default_origin [of array_xml "[]" 5 3] no
    by (simp only: rep simp_thms)
qed

section \<open>Frame of sampling\<close>

text \<open>
  Claim C9. A call of \<^verbatim>\<open>sample\<close> on any of the four variants leaves the object it is
  called on as it was: the state after the call is the state before with the stream
  advanced as the sampler advances it, and the value returned is the sampler's. A call on
  a \<^verbatim>\<open>SpatialPoint\<close> changes nothing at all and returns the configured position, at
  every draw.
\<close>

theorem sample_frame:
  "object (snd (CartesianIndependent_sample_call sc)) = object sc
   \<and> CartesianIndependent_sample_call sc
       = (fst (CartesianIndependent_sample (object sc) (stream sc)),
          sc\<lparr> stream := snd (CartesianIndependent_sample (object sc) (stream sc)) \<rparr>)
   \<and> object (snd (CylindricalIndependent_sample_call sy)) = object sy
   \<and> CylindricalIndependent_sample_call sy
       = (fst (CylindricalIndependent_sample (object sy) (stream sy)),
          sy\<lparr> stream := snd (CylindricalIndependent_sample (object sy) (stream sy)) \<rparr>)
   \<and> object (snd (SpatialBox_sample_call prn sb)) = object sb
   \<and> SpatialBox_sample_call prn sb
       = (fst (SpatialBox_sample prn (object sb) (stream sb)),
          sb\<lparr> stream := snd (SpatialBox_sample prn (object sb) (stream sb)) \<rparr>)
   \<and> SpatialPoint_sample_call sp = (SpatialPoint.r_' (object sp), sp)
   \<and> draws SpatialPoint_sample_call n sp = (replicate n (SpatialPoint.r_' (object sp)), sp)"
proof -
  have cart: "CartesianIndependent_sample_call sc
       = (fst (CartesianIndependent_sample (object sc) (stream sc)),
          sc\<lparr> stream := snd (CartesianIndependent_sample (object sc) (stream sc)) \<rparr>)"
    by (simp add: CartesianIndependent_sample_call_def CartesianIndependent_sample_def
        call_child_def split_beta)
  have cyl: "CylindricalIndependent_sample_call sy
       = (fst (CylindricalIndependent_sample (object sy) (stream sy)),
          sy\<lparr> stream := snd (CylindricalIndependent_sample (object sy) (stream sy)) \<rparr>)"
    by (simp add: CylindricalIndependent_sample_call_def CylindricalIndependent_sample_def
        call_child_def split_beta)
  have box: "SpatialBox_sample_call prn sb
       = (fst (SpatialBox_sample prn (object sb) (stream sb)),
          sb\<lparr> stream := snd (SpatialBox_sample prn (object sb) (stream sb)) \<rparr>)"
    by (simp add: SpatialBox_sample_call_def SpatialBox_sample_def call_prn_def split_beta)
  have point: "SpatialPoint_sample_call sp = (SpatialPoint.r_' (object sp), sp)"
    by (simp add: SpatialPoint_sample_call_def)
  have "draws SpatialPoint_sample_call n sp = (replicate n (SpatialPoint.r_' (object sp)), sp)"
    by (induction n) (simp_all add: point)
  moreover have "object (snd (CartesianIndependent_sample_call sc)) = object sc"
    by (simp add: cart)
  moreover have "object (snd (CylindricalIndependent_sample_call sy)) = object sy"
    by (simp add: cyl)
  moreover have "object (snd (SpatialBox_sample_call prn sb)) = object sb"
    by (simp add: box)
  ultimately show ?thesis
    using cart cyl box point by (intro conjI)
qed

text \<open>
  Claim C10. Two boxes with the same lower and upper bounds return the same position and
  the same advanced stream from the same stream state, whatever their
  \<^verbatim>\<open>only_fissionable_\<close> flags are; setting the flag does not change the sample. The
  constructor stores the flag it is given.
\<close>

theorem SpatialBox_sample_ignores_flag:
  assumes "lower_left_' a = lower_left_' b" and "upper_right_' a = upper_right_' b"
  shows "SpatialBox_sample prn a g = SpatialBox_sample prn b g
    \<and> SpatialBox_sample prn (a\<lparr>only_fissionable_' := flag\<rparr>) g = SpatialBox_sample prn a g
    \<and> (\<forall>box. SpatialBox_ctor xml node fission = Inr box \<longrightarrow> only_fissionable_' box = fission)"
  using assms
  by (auto simp add: SpatialBox_sample_def SpatialBox_ctor_def fatal_error_def Let_def
      split: if_splits)

theorem SpatialBox_sample_ignores_flag_witness:
  "lower_left_' (ordered_box\<lparr>only_fissionable_' := True\<rparr>) = lower_left_' ordered_box
   \<and> upper_right_' (ordered_box\<lparr>only_fissionable_' := True\<rparr>) = upper_right_' ordered_box
   \<and> only_fissionable_' (ordered_box\<lparr>only_fissionable_' := True\<rparr>)
       \<noteq> only_fissionable_' ordered_box
   \<and> SpatialBox_sample cycle_prn (ordered_box\<lparr>only_fissionable_' := True\<rparr>) 1
       = SpatialBox_sample cycle_prn ordered_box 1
   \<and> SpatialBox_ctor array_xml [0, 0, 0, 1, 2, 4] True
       = Inr (ordered_box\<lparr>only_fissionable_' := True\<rparr>)"
proof -
  have l: "lower_left_' (ordered_box\<lparr>only_fissionable_' := True\<rparr>) = lower_left_' ordered_box"
    and u: "upper_right_' (ordered_box\<lparr>only_fissionable_' := True\<rparr>) = upper_right_' ordered_box"
    by simp_all
  have f: "only_fissionable_' (ordered_box\<lparr>only_fissionable_' := True\<rparr>)
       \<noteq> only_fissionable_' ordered_box"
    by (simp add: ordered_box_def)
  have c: "SpatialBox_ctor array_xml [0, 0, 0, 1, 2, 4] True
       = Inr (ordered_box\<lparr>only_fissionable_' := True\<rparr>)"
    by (simp add: SpatialBox_ctor_def array_xml_def ordered_box_def)
  from SpatialBox_sample_ignores_flag [OF l u, of cycle_prn 1, THEN conjunct1]
  have "SpatialBox_sample cycle_prn (ordered_box\<lparr>only_fissionable_' := True\<rparr>) 1
       = SpatialBox_sample cycle_prn ordered_box 1" .
  with l u f c show ?thesis by blast
qed

section \<open>Bounds that are not ordered\<close>

text \<open>
  Claim C8 says that a box whose bounds are not ordered is rejected at construction. The
  parameters 1, 0, 0, 0, 1, 1 have a lower x bound above the upper x bound; the
  constructor accepts them, and a draw from the resulting box is returned as from any
  other box.
\<close>

theorem SpatialBox_degenerate_bounds_accepted:
  "SpatialBox_ctor array_xml [1, 0, 0, 0, 1, 1] False = Inr inverted_box
   \<and> pos_x (upper_right_' inverted_box) < pos_x (lower_left_' inverted_box)
   \<and> SpatialBox_sample cycle_prn inverted_box 1 = (Position (3/4) (1/2) (3/4), 4)"
  by (simp add: SpatialBox_ctor_def array_xml_def inverted_box_def SpatialBox_sample_unfold
      cycle_prn_def plus_Position_def minus_Position_def times_Position_def)

text \<open>
  Claim C8, as amended. The constructor of \<^verbatim>\<open>SpatialBox\<close> does not compare the bounds:
  six parameters of which some lower component is strictly greater than the upper one
  are accepted and stored as given, and \<^verbatim>\<open>sample\<close> interpolates between them as for
  any box.
\<close>

theorem SpatialBox_ctor_no_bounds_check:
  assumes "get_node_array xml node ''parameters'' = [lx, ly, lz, ux, uy, uz]"
    and "ux < lx \<or> uy < ly \<or> uz < lz"
  shows "SpatialBox_ctor xml node fission
           = Inr \<lparr> lower_left_' = Position lx ly lz, upper_right_' = Position ux uy uz,
                   only_fissionable_' = fission \<rparr>
    \<and> fst (SpatialBox_sample prn
             \<lparr> lower_left_' = Position lx ly lz, upper_right_' = Position ux uy uz,
               only_fissionable_' = fission \<rparr> g)
        = Position (lx + fst (prn g) * (ux - lx))
                   (ly + fst (prn (snd (prn g))) * (uy - ly))
                   (lz + fst (prn (snd (prn (snd (prn g))))) * (uz - lz))"
  using assms(1)
  by (simp add: SpatialBox_ctor_def SpatialBox_sample_unfold plus_Position_def
      minus_Position_def times_Position_def)

theorem SpatialBox_ctor_no_bounds_check_witness:
  "get_node_array array_xml [1, 0, 0, 0, 1, 1] ''parameters'' = [1, 0, 0, 0, 1, 1]
   \<and> (0::real) < 1
   \<and> SpatialBox_ctor array_xml [1, 0, 0, 0, 1, 1] False = Inr inverted_box
   \<and> fst (SpatialBox_sample cycle_prn inverted_box 1) = Position (3/4) (1/2) (3/4)"
proof -
  have p: "get_node_array array_xml [1, 0, 0, 0, 1, 1] ''parameters'' = [1, 0, 0, 0, 1, 1]"
    by (simp add: array_xml_def)
  have d: "(0::real) < 1 \<or> (1::real) < 0 \<or> (1::real) < 0" by simp
  show ?thesis
    using SpatialBox_ctor_no_bounds_check [OF p d, of False cycle_prn 1] p
    by (simp add: inverted_box_def cycle_prn_def)
qed

section \<open>The particle: secondaries, seeding and loss\<close>

text \<open>
  Claim C5. On a particle whose Secondary Bank holds \<^verbatim>\<open>MAX_SECONDARY\<close> = 1000 records
  \<^verbatim>\<open>create_secondary\<close> raises a fatal error and leaves the particle, and with it
  the count and every stored record, unchanged. Below capacity it writes one record with
  the particle's current position and weight and the given direction, energy and kind
  into the next free slot, leaves the other slots alone and increments the count by one.
\<close>

theorem create_secondary_capacity:
  "(n_secondary_' p = MAX_SECONDARY \<longrightarrow>
      (\<exists>message. create_secondary uvw1 E type run_CE p = (Some (FatalError message), p)))
   \<and> (0 \<le> n_secondary_' p \<and> n_secondary_' p < MAX_SECONDARY
        \<and> int (length (secondary_bank_' p)) = MAX_SECONDARY \<longrightarrow>
      (\<exists>p'. create_secondary uvw1 E type run_CE p = (None, p')
         \<and> n_secondary_' p' = n_secondary_' p + 1
         \<and> length (secondary_bank_' p') = length (secondary_bank_' p)
         \<and> position (secondary_bank_' p' ! nat (n_secondary_' p)) = xyz (coord_' p ! 0)
         \<and> weight (secondary_bank_' p' ! nat (n_secondary_' p)) = wgt_' p
         \<and> direction (secondary_bank_' p' ! nat (n_secondary_' p)) = uvw1
         \<and> energy (secondary_bank_' p' ! nat (n_secondary_' p)) = E
         \<and> kind (secondary_bank_' p' ! nat (n_secondary_' p)) = type
         \<and> (\<forall>i. i \<noteq> nat (n_secondary_' p) \<longrightarrow>
               secondary_bank_' p' ! i = secondary_bank_' p ! i)
         \<and> p' = p\<lparr> secondary_bank_' := secondary_bank_' p',
                    n_secondary_' := n_secondary_' p + 1 \<rparr>))"
proof (intro conjI impI)
  assume "n_secondary_' p = MAX_SECONDARY"
  then show "\<exists>message. create_secondary uvw1 E type run_CE p = (Some (FatalError message), p)"
    by (simp add: create_secondary_def)
next
  assume a: "0 \<le> n_secondary_' p \<and> n_secondary_' p < MAX_SECONDARY
        \<and> int (length (secondary_bank_' p)) = MAX_SECONDARY"
  then have lt: "nat (n_secondary_' p) < length (secondary_bank_' p)"
    by linarith
  let ?n = "nat (n_secondary_' p)"
  let ?site = "(secondary_bank_' p ! ?n)
                     \<lparr> position := xyz (coord_' p ! 0), direction := uvw1,
                        energy := E, weight := wgt_' p, kind := type \<rparr>"
  let ?p' = "p\<lparr> secondary_bank_' := (secondary_bank_' p)[?n := ?site],
                        n_secondary_' := n_secondary_' p + 1 \<rparr>"
  have run: "create_secondary uvw1 E type run_CE p = (None, ?p')"
    using a by (simp add: create_secondary_def Let_def)
  have bank: "secondary_bank_' ?p' = (secondary_bank_' p)[?n := ?site]"
    by simp
  have "n_secondary_' ?p' = n_secondary_' p + 1
         \<and> length (secondary_bank_' ?p') = length (secondary_bank_' p)
         \<and> position (secondary_bank_' ?p' ! ?n) = xyz (coord_' p ! 0)
         \<and> weight (secondary_bank_' ?p' ! ?n) = wgt_' p
         \<and> direction (secondary_bank_' ?p' ! ?n) = uvw1
         \<and> energy (secondary_bank_' ?p' ! ?n) = E
         \<and> kind (secondary_bank_' ?p' ! ?n) = type
         \<and> (\<forall>i. i \<noteq> ?n \<longrightarrow> secondary_bank_' ?p' ! i = secondary_bank_' p ! i)
         \<and> ?p' = p\<lparr> secondary_bank_' := secondary_bank_' ?p',
                    n_secondary_' := n_secondary_' p + 1 \<rparr>"
    using lt unfolding bank by simp
  with run show "\<exists>p'. create_secondary uvw1 E type run_CE p = (None, p')
         \<and> n_secondary_' p' = n_secondary_' p + 1
         \<and> length (secondary_bank_' p') = length (secondary_bank_' p)
         \<and> position (secondary_bank_' p' ! nat (n_secondary_' p)) = xyz (coord_' p ! 0)
         \<and> weight (secondary_bank_' p' ! nat (n_secondary_' p)) = wgt_' p
         \<and> direction (secondary_bank_' p' ! nat (n_secondary_' p)) = uvw1
         \<and> energy (secondary_bank_' p' ! nat (n_secondary_' p)) = E
         \<and> kind (secondary_bank_' p' ! nat (n_secondary_' p)) = type
         \<and> (\<forall>i. i \<noteq> nat (n_secondary_' p) \<longrightarrow>
               secondary_bank_' p' ! i = secondary_bank_' p ! i)
         \<and> p' = p\<lparr> secondary_bank_' := secondary_bank_' p',
                    n_secondary_' := n_secondary_' p + 1 \<rparr>"
    by (intro exI [of _ ?p']) (rule conjI)
qed

theorem create_secondary_capacity_witness:
  "n_secondary_' (some_particle\<lparr> n_secondary_' := 1000 \<rparr>) = MAX_SECONDARY
   \<and> create_secondary (0, 0, 1) 5 1 True (some_particle\<lparr> n_secondary_' := 1000 \<rparr>)
       = (Some (FatalError ''Too many secondary particles created.''),
          some_particle\<lparr> n_secondary_' := 1000 \<rparr>)
   \<and> 0 \<le> n_secondary_' some_particle \<and> n_secondary_' some_particle < MAX_SECONDARY
   \<and> int (length (secondary_bank_' some_particle)) = MAX_SECONDARY
   \<and> fst (create_secondary (0, 0, 1) 5 1 True some_particle) = None
   \<and> n_secondary_' (snd (create_secondary (0, 0, 1) 5 1 True some_particle)) = 3
   \<and> secondary_bank_' (snd (create_secondary (0, 0, 1) 5 1 True some_particle)) ! 2
       = \<lparr> position = (7, 8, 9), direction = (0, 0, 1), energy = 5, weight = 1 / 2,
           kind = 1, delayed_group = 0 \<rparr>"
proof -
  have full: "n_secondary_' (some_particle\<lparr> n_secondary_' := 1000 \<rparr>) = MAX_SECONDARY"
    by (simp add: MAX_SECONDARY_def)
  have room: "0 \<le> n_secondary_' some_particle \<and> n_secondary_' some_particle < MAX_SECONDARY
     \<and> int (length (secondary_bank_' some_particle)) = MAX_SECONDARY"
    by (simp add: MAX_SECONDARY_def some_particle_def)
  note inst1 = create_secondary_capacity
    [of "some_particle\<lparr> n_secondary_' := 1000 \<rparr>" "(0, 0, 1)" 5 1 True,
      THEN conjunct1, THEN mp, OF full]
  note inst2 = create_secondary_capacity
    [of some_particle "(0, 0, 1)" 5 1 True, THEN conjunct2, THEN mp, OF room]
  have run1: "create_secondary (0, 0, 1) 5 1 True (some_particle\<lparr> n_secondary_' := 1000 \<rparr>)
       = (Some (FatalError ''Too many secondary particles created.''),
          some_particle\<lparr> n_secondary_' := 1000 \<rparr>)"
    using inst1 by (auto simp add: create_secondary_def MAX_SECONDARY_def)
  from inst2 obtain p' where
    r: "create_secondary (0, 0, 1) 5 1 True some_particle = (None, p')"
    and n: "n_secondary_' p' = n_secondary_' some_particle + 1"
    and f: "position (secondary_bank_' p' ! nat (n_secondary_' some_particle))
              = xyz (coord_' some_particle ! 0)"
       "weight (secondary_bank_' p' ! nat (n_secondary_' some_particle)) = wgt_' some_particle"
       "direction (secondary_bank_' p' ! nat (n_secondary_' some_particle)) = (0, 0, 1)"
       "energy (secondary_bank_' p' ! nat (n_secondary_' some_particle)) = 5"
       "kind (secondary_bank_' p' ! nat (n_secondary_' some_particle)) = 1"
    by blast
  have dg: "delayed_group (secondary_bank_' p' ! 2) = 0"
    using r by (simp add: create_secondary_def MAX_SECONDARY_def some_particle_def
        empty_site_def Let_def split: if_splits) auto
  have two: "nat (n_secondary_' some_particle) = 2"
    by (simp add: some_particle_def)
  have "secondary_bank_' p' ! 2
       = \<lparr> position = (7, 8, 9), direction = (0, 0, 1), energy = 5, weight = 1 / 2,
           kind = 1, delayed_group = 0 \<rparr>"
    using f dg unfolding two
    by (intro Bank.equality) (simp_all add: some_particle_def used_level_def)
  moreover have "n_secondary_' p' = 3"
    using n by (simp add: some_particle_def)
  ultimately show ?thesis
    using full room run1 r by simp
qed

text \<open>
  Claim C6. For a source site in the valid ranges \<^verbatim>\<open>from_source\<close> succeeds, and
  reading position and direction from level 0 of the coordinate stack and energy,
  weight, kind and delayed group from the scalar fields gives the site back. One level
  is in use, the levels above level 0 are reset, the Secondary Bank is empty, the particle
  is alive and the per-history counters are zero.
\<close>

theorem from_source_round_trip:
  assumes "0 < weight src" and "E_min \<le> energy src" and "energy src \<le> E_max"
    and "coord_' p \<noteq> []"
  shows "\<exists>p'. from_source E_min E_max src p = Inr p'
     \<and> \<lparr> position = xyz (coord_' p' ! 0), direction = uvw (coord_' p' ! 0),
          energy = E_' p', weight = wgt_' p', kind = type_' p',
          delayed_group = delayed_group_' p' \<rparr> = src
     \<and> n_coord_' p' = 1
     \<and> length (coord_' p') = length (coord_' p)
     \<and> (\<forall>k. 0 < k \<and> k < length (coord_' p) \<longrightarrow>
           coord_' p' ! k = LocalCoord_reset (coord_' p ! k))
     \<and> n_secondary_' p' = 0
     \<and> alive_' p'
     \<and> n_collision_' p' = 0 \<and> n_bank_' p' = 0 \<and> wgt_bank_' p' = 0
     \<and> list_all (\<lambda>n. n = 0) (n_delayed_bank_' p')"
proof -
  from assms(4) obtain c0 levels where c: "coord_' p = c0 # levels"
    by (cases "coord_' p") auto
  have lv: "\<forall>k. 0 < k \<and> k < Suc (length levels) \<longrightarrow>
      map LocalCoord_reset levels ! (k - Suc 0) = LocalCoord_reset (levels ! (k - Suc 0))"
    by (auto intro!: nth_map)
  show ?thesis
    using assms(1-3) lv
    by (simp add: from_source_def c nth_Cons' list_all_iff)
qed

theorem from_source_round_trip_witness:
  "0 < weight some_site \<and> 0 \<le> energy some_site \<and> energy some_site \<le> 20000000
   \<and> coord_' some_particle \<noteq> []
   \<and> (\<exists>p'. from_source 0 20000000 some_site some_particle = Inr p'
        \<and> xyz (coord_' p' ! 0) = (1, 2, 3) \<and> uvw (coord_' p' ! 0) = (0, 0, 1)
        \<and> E_' p' = 1000000 \<and> wgt_' p' = 1 \<and> type_' p' = 1 \<and> delayed_group_' p' = 2
        \<and> n_coord_' p' = 1 \<and> n_secondary_' p' = 0 \<and> alive_' p' \<and> n_collision_' p' = 0)"
proof -
  have w: "0 < weight some_site" and lo: "0 \<le> energy some_site"
    and hi: "energy some_site \<le> 20000000"
    by (simp_all add: some_site_def)
  have c: "coord_' some_particle \<noteq> []"
    by (simp add: some_particle_def)
  from from_source_round_trip [OF w lo hi c] obtain p' where
    r: "from_source 0 20000000 some_site some_particle = Inr p'"
    and s: "\<lparr> position = xyz (coord_' p' ! 0), direction = uvw (coord_' p' ! 0),
          energy = E_' p', weight = wgt_' p', kind = type_' p',
          delayed_group = delayed_group_' p' \<rparr> = some_site"
    and rest: "n_coord_' p' = 1" "n_secondary_' p' = 0" "alive_' p'" "n_collision_' p' = 0"
    by blast
  from s have "xyz (coord_' p' ! 0) = (1, 2, 3) \<and> uvw (coord_' p' ! 0) = (0, 0, 1)
        \<and> E_' p' = 1000000 \<and> wgt_' p' = 1 \<and> type_' p' = 1 \<and> delayed_group_' p' = 2"
    by (simp add: some_site_def)
  with r rest w lo hi c show ?thesis by blast
qed



end
